theory Spec2Isabelle
  imports Complex_Main
begin

section \<open>JavaScript strings and numbers used by the two scripts\<close>

text \<open>
  A JavaScript string is modelled as a \<^typ>\<open>string\<close>: a list of code units, restricted
  to the code units below 256. \<open>length\<close> is the \<open>.length\<close> of the source.
\<close>

definition LF :: char where
  "LF = CHR 0x0A"

definition CR :: char where
  "CR = CHR 0x0D"

definition COMMA :: char where
  "COMMA = CHR '',''"

definition QUOTE :: char where
  "QUOTE = CHR 0x22"

definition BACKSLASH :: char where
  "BACKSLASH = CHR 0x5C"

text \<open>The white space and line terminators that \<open>String.prototype.trim\<close> and
  \<open>parseInt\<close> strip, among the code units below 256: TAB, LF, VT, FF, CR, SP, NBSP.\<close>

definition is_white_space :: "char \<Rightarrow> bool" where
  "is_white_space c \<longleftrightarrow>
     c = CHR 0x09 \<or> c = CHR 0x0A \<or> c = CHR 0x0B \<or> c = CHR 0x0C \<or> c = CHR 0x0D \<or>
     c = CHR 0x20 \<or> c = CHR 0xA0"

text \<open>\<open>s.trim()\<close>\<close>

definition trim :: "string \<Rightarrow> string" where
  "trim s = rev (dropWhile is_white_space (rev (dropWhile is_white_space s)))"

text \<open>\<open>s.split(sep)\<close> for a separator of one character: the result is never empty,
  \<open>"".split(",")\<close> is \<open>[""]\<close>.\<close>

fun split :: "char \<Rightarrow> string \<Rightarrow> string list" where
  "split sep [] = [[]]"
| "split sep (c # cs) =
     (if c = sep then [] # split sep cs
      else (case split sep cs of
              p # ps \<Rightarrow> (c # p) # ps
            | [] \<Rightarrow> [[c]]))"

text \<open>\<open>xs[i]\<close> of an array: \<open>undefined\<close> (here \<open>None\<close>) out of range.\<close>

definition at_index :: "'a list \<Rightarrow> nat \<Rightarrow> 'a option" where
  "at_index xs i = (if i < length xs then Some (xs ! i) else None)"

text \<open>\<open>s.replace(/\r?\n/g, "\\n")\<close>: every LF, together with a CR right before it, becomes
  the two characters backslash and n.\<close>

fun escape_newlines :: "string \<Rightarrow> string" where
  "escape_newlines [] = []"
| "escape_newlines [c] = (if c = LF then [BACKSLASH, CHR ''n''] else [c])"
| "escape_newlines (c # d # cs) =
     (if c = CR \<and> d = LF then BACKSLASH # CHR ''n'' # escape_newlines cs
      else if c = LF then BACKSLASH # CHR ''n'' # escape_newlines (d # cs)
      else c # escape_newlines (d # cs))"

text \<open>\<open>parseInt(s, 10)\<close>: leading white space is skipped, one sign is accepted, then the
  longest run of decimal digits is read and whatever follows it is ignored; \<open>NaN\<close>
  (here \<open>None\<close>) when there is no digit.\<close>

definition is_digit :: "char \<Rightarrow> bool" where
  "is_digit c \<longleftrightarrow> c \<in> set ''0123456789''"

definition digit_value :: "char \<Rightarrow> int" where
  "digit_value c = int (of_char c) - 48"

definition digits_value :: "string \<Rightarrow> int" where
  "digits_value ds = foldl (\<lambda>acc c. 10 * acc + digit_value c) 0 ds"

definition parseInt :: "string \<Rightarrow> int option" where
  "parseInt s =
     (let t = dropWhile is_white_space s;
          negative = (case t of c # _ \<Rightarrow> c = CHR ''-'' | [] \<Rightarrow> False);
          signed = (case t of c # _ \<Rightarrow> c = CHR ''-'' \<or> c = CHR ''+'' | [] \<Rightarrow> False);
          u = (if signed then tl t else t);
          z = takeWhile is_digit u
      in if z = [] then None
         else Some (if negative then - digits_value z else digits_value z))"

text \<open>\<open>String(n)\<close> for an integer \<open>n\<close>.\<close>

fun decimal :: "nat \<Rightarrow> string" where
  "decimal n =
     (if n < 10 then [char_of (48 + n)] else decimal (n div 10) @ [char_of (48 + n mod 10)])"

definition string_of_int :: "int \<Rightarrow> string" where
  "string_of_int i = (if i < 0 then CHR ''-'' # decimal (nat (- i)) else decimal (nat i))"

text \<open>The numbers of the rate limiter: \<open>1000 / REQUESTS_PER_SECOND\<close> is a fraction, or
  \<open>Infinity\<close> when the rate is 0.\<close>

datatype js_number = Finite rat | Infinity

definition js_divide_1000 :: "int \<Rightarrow> js_number" where
  "js_divide_1000 r = (if r = 0 then Infinity else Finite (1000 / of_int r))"

fun js_less :: "int \<Rightarrow> js_number \<Rightarrow> bool" where
  "js_less e (Finite q) = (of_int e < q)"
| "js_less e Infinity = True"

fun js_minus :: "js_number \<Rightarrow> int \<Rightarrow> js_number" where
  "js_minus (Finite q) e = Finite (q - of_int e)"
| "js_minus Infinity e = Infinity"

text \<open>The delay, in whole milliseconds, that Node's \<open>setTimeout(f, d)\<close> arms its timer
  with: \<open>d\<close> truncated, and 1 when \<open>d\<close> is not between 1 and \<open>2^31 - 1\<close>.\<close>

fun timer_delay :: "js_number \<Rightarrow> int" where
  "timer_delay (Finite q) = (if 1 \<le> q \<and> q \<le> 2147483647 then \<lfloor>q\<rfloor> else 1)"
| "timer_delay Infinity = 1"

section \<open>Rows\<close>

text \<open>The rows of the three CSV files: the address list read by the fetch stage, the
  code file it writes and the classification stage reads, and the classification file.\<close>

record addr_row =
  block_number :: string
  address :: string
  is_erc20 :: string
  is_erc721 :: string

record code_row = addr_row +
  code :: string

text \<open>\<open>artistic_score\<close> is a number or the empty string (here \<open>None\<close>).\<close>

record classified_row = code_row +
  artistic_score :: "int option"
  artistic_reason :: string
  duplicate_of_address :: string

text \<open>The constants of both scripts. \<open>REQUESTS_PER_SECOND\<close> is 3 in \<open>get_code.js\<close> and 1
  in the classification script, \<open>SKIP_PROCESSED\<close> is \<open>true\<close> in both.\<close>

record config =
  REQUESTS_PER_SECOND :: int
  SKIP_PROCESSED :: bool

definition fetch_config :: config where
  "fetch_config = \<lparr>REQUESTS_PER_SECOND = 3, SKIP_PROCESSED = True\<rparr>"

definition classify_config :: config where
  "classify_config = \<lparr>REQUESTS_PER_SECOND = 1, SKIP_PROCESSED = True\<rparr>"

definition MIN_CODE_LENGTH :: nat where
  "MIN_CODE_LENGTH = 20"

text \<open>What both drivers keep while they run, with the clock \<open>Date.now()\<close> reads (in
  milliseconds) and two logs: the times at which an external call was dispatched and the
  delays of the timers that were awaited.\<close>

record run_state =
  processedAddresses :: "string set"
  clock :: int
  calls :: "int list"
  waits :: "int list"

section \<open>The output file of the classification stage\<close>

text \<open>The text \<open>csv-writer\<close> produces: a field is quoted, with its quotes doubled, when it
  holds a comma, a quote, a CR or an LF; the fields of a record are joined by commas and
  every record ends with LF.\<close>

definition needs_quote :: "string \<Rightarrow> bool" where
  "needs_quote s \<longleftrightarrow> COMMA \<in> set s \<or> CR \<in> set s \<or> LF \<in> set s \<or> QUOTE \<in> set s"

definition quote_field :: "string \<Rightarrow> string" where
  "quote_field s = QUOTE # concat (map (\<lambda>c. if c = QUOTE then [QUOTE, QUOTE] else [c]) s) @ [QUOTE]"

definition stringify_field :: "string \<Rightarrow> string" where
  "stringify_field s = (if needs_quote s then quote_field s else s)"

fun join :: "char \<Rightarrow> string list \<Rightarrow> string" where
  "join sep [] = []"
| "join sep [f] = f"
| "join sep (f # g # fs) = f @ sep # join sep (g # fs)"

definition classified_fields :: "classified_row \<Rightarrow> string list" where
  "classified_fields r =
     [block_number r, address r, is_erc20 r, is_erc721 r, code r,
      (case artistic_score r of None \<Rightarrow> [] | Some n \<Rightarrow> string_of_int n),
      artistic_reason r, duplicate_of_address r]"

definition csv_line :: "classified_row \<Rightarrow> string" where
  "csv_line r = join COMMA (map stringify_field (classified_fields r))"

definition csv_records :: "classified_row list \<Rightarrow> string" where
  "csv_records rs = concat (map (\<lambda>r. csv_line r @ [LF]) rs)"

definition classified_header :: string where
  "classified_header =
     ''block_number,address,is_erc20,is_erc721,code,artistic_score,artistic_reason,duplicate_of_address''"

text \<open>The file after \<open>writeRecords\<close> was called with \<open>rs\<close>, one call for each row: the
  writer appends when the file existed at start-up and writes the header first otherwise.
  Nothing is written before the first call.\<close>

definition written_file :: "string option \<Rightarrow> classified_row list \<Rightarrow> string option" where
  "written_file existing rs =
     (if rs = [] then existing
      else (case existing of
              Some text \<Rightarrow> Some (text @ csv_records rs)
            | None \<Rightarrow> Some (classified_header @ [LF] @ csv_records rs)))"

text \<open>Lines 108 to 120 of the classification script: every line but the first is trimmed,
  an empty line is skipped, and the second comma-separated column is added to the set
  unless it is missing or empty.\<close>

fun scan_lines :: "string list \<Rightarrow> string set \<Rightarrow> string set" where
  "scan_lines [] processed = processed"
| "scan_lines (l # ls) processed =
     (let line = trim l in
      if line = [] then scan_lines ls processed
      else (case at_index (split COMMA line) 1 of
              Some addr \<Rightarrow>
                if addr \<noteq> [] then scan_lines ls (insert addr processed)
                else scan_lines ls processed
            | None \<Rightarrow> scan_lines ls processed))"

definition load_processed :: "config \<Rightarrow> string option \<Rightarrow> string set" where
  "load_processed cfg existing =
     (case existing of
        Some text \<Rightarrow>
          if SKIP_PROCESSED cfg then scan_lines (drop 1 (split LF text)) {} else {}
      | None \<Rightarrow> {})"

section \<open>The classification stage\<close>

subsection \<open>The service adapter \<open>getArtisticScoreAndReason\<close>\<close>

text \<open>What one call of \<open>openai.chat.completions.create\<close> does: it throws (a network
  fault, a timeout, a throttling or any other error of the API, or a reply without
  \<open>choices[0].message.content\<close>), or it returns the text of the reply.\<close>

datatype api_outcome = Api_throws | Api_content string

record annotation =
  score :: "int option"
  reason :: string

definition null_annotation :: annotation where
  "null_annotation = \<lparr>score = None, reason = []\<rparr>"

text \<open>The function has no loop: the call is made once, and the \<open>catch\<close> returns the null
  annotation.\<close>

definition getArtisticScoreAndReason :: "api_outcome \<Rightarrow> annotation" where
  "getArtisticScoreAndReason outcome =
     (case outcome of
        Api_throws \<Rightarrow> null_annotation
      | Api_content raw \<Rightarrow>
          (let content = trim raw;
               parts = map trim (split (CHR ''|'') content)
           in if length parts \<noteq> 2 then null_annotation
              else (case parseInt (parts ! 0) of
                      None \<Rightarrow> null_annotation
                    | Some n \<Rightarrow>
                        if n < 1 \<or> n > 3 then null_annotation
                        else \<lparr>score = Some n, reason = parts ! 1\<rparr>)))"

subsection \<open>The driver\<close>

text \<open>\<open>processedCodes\<close> is an object used as a dictionary from code to address. A look-up
  is tested for truthiness, so an entry holding the empty address counts as absent. (The
  properties every object inherits have names of at most 20 characters, and only a code
  longer than \<open>MIN_CODE_LENGTH\<close> is looked up.)\<close>

record classify_state = run_state +
  processedCodes :: "string \<rightharpoonup> string"
  lastRequestTime :: int
  count :: nat
  classified :: "classified_row list"

definition truthy_entry :: "(string \<rightharpoonup> string) \<Rightarrow> string \<Rightarrow> string option" where
  "truthy_entry m k = (case m k of Some v \<Rightarrow> if v \<noteq> [] then Some v else None | None \<Rightarrow> None)"

text \<open>What the environment does while one record is processed: the outcome of the API
  call, the time it takes, and by how much the limiter's timer fires late.\<close>

record classify_world =
  api :: api_outcome
  call_ms :: nat
  late_ms :: nat

definition too_short_row :: "code_row \<Rightarrow> classified_row" where
  "too_short_row row =
     \<lparr>block_number = block_number row, address = address row, is_erc20 = is_erc20 row,
      is_erc721 = is_erc721 row, code = [], artistic_score = None, artistic_reason = [],
      duplicate_of_address = ''TOO_SHORT''\<rparr>"

definition duplicate_row :: "code_row \<Rightarrow> string \<Rightarrow> classified_row" where
  "duplicate_row row originalAddr =
     \<lparr>block_number = block_number row, address = address row, is_erc20 = is_erc20 row,
      is_erc721 = is_erc721 row, code = [], artistic_score = None, artistic_reason = [],
      duplicate_of_address = originalAddr\<rparr>"

definition enriched_row :: "code_row \<Rightarrow> annotation \<Rightarrow> classified_row" where
  "enriched_row row a =
     \<lparr>block_number = block_number row, address = address row, is_erc20 = is_erc20 row,
      is_erc721 = is_erc721 row, code = escape_newlines (code row), artistic_score = score a,
      artistic_reason = reason a, duplicate_of_address = []\<rparr>"

text \<open>The enrichment of one record, lines 196 to 221: the limiter's wait, the call, the
  row, and the two ledgers.\<close>

definition enrich :: "config \<Rightarrow> classify_world \<Rightarrow> code_row \<Rightarrow> classify_state \<Rightarrow> classify_state" where
  "enrich cfg w row s =
     (let intervalMs = js_divide_1000 (REQUESTS_PER_SECOND cfg);
          now = clock s;
          elapsed = now - lastRequestTime s;
          wait = (if js_less elapsed intervalMs
                  then [timer_delay (js_minus intervalMs elapsed)] else []);
          dispatched = (if js_less elapsed intervalMs
                        then now + timer_delay (js_minus intervalMs elapsed) + int (late_ms w)
                        else now);
          a = getArtisticScoreAndReason (api w);
          finished = dispatched + int (call_ms w)
      in s\<lparr>clock := finished,
            waits := waits s @ wait,
            calls := calls s @ [dispatched],
            lastRequestTime := finished,
            classified := classified s @ [enriched_row row a],
            processedAddresses := insert (address row) (processedAddresses s),
            processedCodes := (processedCodes s)(code row \<mapsto> address row),
            count := count s + 1\<rparr>)"

text \<open>The body of the loop over the records, lines 152 to 222.\<close>

definition process_row :: "config \<Rightarrow> classify_world \<Rightarrow> code_row \<Rightarrow> classify_state \<Rightarrow> classify_state" where
  "process_row cfg w row s =
     (if SKIP_PROCESSED cfg \<and> address row \<in> processedAddresses s then s
      else if length (code row) \<le> MIN_CODE_LENGTH
      then s\<lparr>classified := classified s @ [too_short_row row]\<rparr>
      else (case truthy_entry (processedCodes s) (code row) of
              Some originalAddr \<Rightarrow>
                s\<lparr>classified := classified s @ [duplicate_row row originalAddr]\<rparr>
            | None \<Rightarrow> enrich cfg w row s))"

fun classify_loop :: "config \<Rightarrow> (code_row \<times> classify_world) list \<Rightarrow> classify_state \<Rightarrow> classify_state" where
  "classify_loop cfg [] s = s"
| "classify_loop cfg ((row, w) # records) s = classify_loop cfg records (process_row cfg w row s)"

text \<open>\<open>main\<close> of the classification script: \<open>existing\<close> is the text of the output file at
  start-up (\<open>None\<close> when there is none), \<open>t0\<close> the time at which the loop starts, and every
  input record comes with what the environment does when its turn comes. \<open>classified\<close> of
  the result holds the rows appended by this run, in order.\<close>

definition classify_start :: "config \<Rightarrow> string option \<Rightarrow> int \<Rightarrow> classify_state" where
  "classify_start cfg existing t0 =
     \<lparr>processedAddresses = load_processed cfg existing, clock = t0, calls = [], waits = [],
      processedCodes = Map.empty, lastRequestTime = 0, count = 0, classified = []\<rparr>"

definition classify_main ::
  "config \<Rightarrow> string option \<Rightarrow> int \<Rightarrow> (code_row \<times> classify_world) list \<Rightarrow> classify_state" where
  "classify_main cfg existing t0 records = classify_loop cfg records (classify_start cfg existing t0)"

section \<open>The fetch stage, \<open>get_code.js\<close>\<close>

subsection \<open>The service adapter \<open>fetchContractSource\<close>\<close>

text \<open>\<open>data.result\<close> is anything but an array, or an array; of each element only the field
  \<open>SourceCode\<close> matters, a string when it is there.\<close>

datatype json_result = Not_an_array | Result_array "string option list"

record etherscan_reply =
  message :: string
  result :: json_result

text \<open>One attempt: \<open>fetch\<close> or \<open>response.json()\<close> throws, the response is not \<open>ok\<close> (with
  its status), or the body is read. \<open>took_ms\<close> is the time the attempt takes and
  \<open>backoff_late_ms\<close> by how much the timer of the sleep that follows it fires late.\<close>

datatype http_outcome = Network_error | Http_error nat | Http_ok etherscan_reply

record attempt =
  outcome :: http_outcome
  took_ms :: nat
  backoff_late_ms :: nat

record fetch_state = run_state +
  callCount :: int
  startTime :: int
  fetched :: "code_row list"

text \<open>\<open>await new Promise((resolve) => setTimeout(resolve, d))\<close>\<close>

definition sleep :: "int \<Rightarrow> nat \<Rightarrow> fetch_state \<Rightarrow> fetch_state" where
  "sleep d late s = s\<lparr>clock := clock s + d + int late, waits := waits s @ [d]\<rparr>"

text \<open>Lines 57 to 64: the value returned once a reply is neither an error nor \<open>NOTOK\<close>.\<close>

definition source_of :: "json_result \<Rightarrow> string option" where
  "source_of res =
     (case res of
        Not_an_array \<Rightarrow> None
      | Result_array [] \<Rightarrow> None
      | Result_array (contractInfo # _) \<Rightarrow>
          (case contractInfo of
             None \<Rightarrow> None
           | Some src \<Rightarrow>
               (let sourceCode = trim src
                in if sourceCode \<noteq> [] \<and> sourceCode \<noteq> ''0x'' then Some sourceCode else None)))"

text \<open>The loop \<open>while (true)\<close>: \<open>w i\<close> is what happens at the attempt number \<open>i\<close>. The
  function has no value (\<open>None\<close>) when the loop never ends.\<close>

partial_function (option) fetchContractSource ::
  "(nat \<Rightarrow> attempt) \<Rightarrow> nat \<Rightarrow> fetch_state \<Rightarrow> (string option \<times> fetch_state) option" where
  "fetchContractSource w i s =
     (case outcome (w i) of
        Http_error status \<Rightarrow>
          fetchContractSource w (Suc i)
            (sleep 3000 (backoff_late_ms (w i))
               (s\<lparr>calls := calls s @ [clock s], clock := clock s + int (took_ms (w i))\<rparr>))
      | Http_ok data \<Rightarrow>
          if message data = ''NOTOK''
          then fetchContractSource w (Suc i)
                 (sleep 3000 (backoff_late_ms (w i))
                    (s\<lparr>calls := calls s @ [clock s], clock := clock s + int (took_ms (w i))\<rparr>))
          else Some (source_of (result data),
                     s\<lparr>calls := calls s @ [clock s], clock := clock s + int (took_ms (w i))\<rparr>)
      | Network_error \<Rightarrow>
          fetchContractSource w (Suc i)
            (sleep 10000 (backoff_late_ms (w i))
               (s\<lparr>calls := calls s @ [clock s], clock := clock s + int (took_ms (w i))\<rparr>)))"

declare fetchContractSource.simps [code]

subsection \<open>The driver\<close>

text \<open>What the environment does while one record is processed: the attempts of its
  look-up, and by how much the limiter's timer fires late.\<close>

record fetch_world =
  attempts :: "nat \<Rightarrow> attempt"
  limiter_late_ms :: nat

text \<open>Lines 117 to 125. The delay \<open>1000 - elapsed\<close> is between 1 and 1000 as long as the
  clock is not behind \<open>startTime\<close>, so the timer is armed with it as it is.\<close>

definition limiter :: "config \<Rightarrow> fetch_world \<Rightarrow> fetch_state \<Rightarrow> fetch_state" where
  "limiter cfg w s =
     (let s1 = s\<lparr>callCount := callCount s + 1\<rparr>
      in if callCount s1 > REQUESTS_PER_SECOND cfg
         then (let elapsed = clock s1 - startTime s1;
                   s2 = (if elapsed < 1000 then sleep (1000 - elapsed) (limiter_late_ms w) s1
                         else s1)
               in s2\<lparr>startTime := clock s2, callCount := 1\<rparr>)
         else s1)"

definition fetched_row :: "addr_row \<Rightarrow> string \<Rightarrow> code_row" where
  "fetched_row row sourceCode =
     \<lparr>block_number = block_number row, address = address row, is_erc20 = is_erc20 row,
      is_erc721 = is_erc721 row, code = escape_newlines sourceCode\<rparr>"

text \<open>The body of the loop over the records, lines 109 to 145.\<close>

definition process_address ::
  "config \<Rightarrow> fetch_world \<Rightarrow> addr_row \<Rightarrow> fetch_state \<Rightarrow> fetch_state option" where
  "process_address cfg w row s =
     (if SKIP_PROCESSED cfg \<and> address row \<in> processedAddresses s then Some s
      else (case fetchContractSource (attempts w) 0 (limiter cfg w s) of
              None \<Rightarrow> None
            | Some (sourceCode, s') \<Rightarrow>
                (case sourceCode of
                   Some src \<Rightarrow>
                     if src \<noteq> []
                     then Some (s'\<lparr>fetched := fetched s' @ [fetched_row row src],
                                  processedAddresses := insert (address row) (processedAddresses s')\<rparr>)
                     else Some s'
                 | None \<Rightarrow> Some s')))"

fun fetch_loop :: "config \<Rightarrow> (addr_row \<times> fetch_world) list \<Rightarrow> fetch_state \<Rightarrow> fetch_state option" where
  "fetch_loop cfg [] s = Some s"
| "fetch_loop cfg ((row, w) # records) s =
     (case process_address cfg w row s of
        None \<Rightarrow> None
      | Some s' \<Rightarrow> fetch_loop cfg records s')"

text \<open>\<open>getProcessedAddresses\<close> and \<open>main\<close>: \<open>existing\<close> holds the rows \<open>csv-parser\<close> reads
  from the output file at start-up (\<open>None\<close> when there is no file). \<open>fetched\<close> of the result
  holds the rows appended by this run, in order.\<close>

definition getProcessedAddresses :: "code_row list option \<Rightarrow> string set" where
  "getProcessedAddresses existing =
     (case existing of None \<Rightarrow> {} | Some rows \<Rightarrow> set (map address rows))"

definition fetch_start :: "config \<Rightarrow> code_row list option \<Rightarrow> int \<Rightarrow> fetch_state" where
  "fetch_start cfg existing t0 =
     \<lparr>processedAddresses = (if SKIP_PROCESSED cfg then getProcessedAddresses existing else {}),
      clock = t0, calls = [], waits = [], callCount = 0, startTime = t0, fetched = []\<rparr>"

definition fetch_main ::
  "config \<Rightarrow> code_row list option \<Rightarrow> int \<Rightarrow> (addr_row \<times> fetch_world) list \<Rightarrow> fetch_state option" where
  "fetch_main cfg existing t0 records = fetch_loop cfg records (fetch_start cfg existing t0)"

section \<open>Notions used to state the properties\<close>

subsection \<open>Classification stage\<close>






text \<open>The parse failure as the specification words it: the fields of the reply are not
  two, the score is not an integer (an optional sign and decimal digits), or it is an
  integer outside 1 to 3.\<close>

definition is_integer_text :: "string \<Rightarrow> bool" where
  "is_integer_text s \<longleftrightarrow>
     (case s of
        [] \<Rightarrow> False
      | c # cs \<Rightarrow>
          if c = CHR ''-'' \<or> c = CHR ''+'' then cs \<noteq> [] \<and> list_all is_digit cs
          else list_all is_digit s)"

definition integer_of_text :: "string \<Rightarrow> int" where
  "integer_of_text s =
     (case s of
        [] \<Rightarrow> 0
      | c # cs \<Rightarrow>
          if c = CHR ''-'' then - digits_value cs
          else if c = CHR ''+'' then digits_value cs
          else digits_value s)"

definition spec_parse_failure :: "string \<Rightarrow> bool" where
  "spec_parse_failure raw =
     (let parts = map trim (split (CHR ''|'') (trim raw))
      in length parts \<noteq> 2 \<or> \<not> is_integer_text (parts ! 0) \<or>
         integer_of_text (parts ! 0) < 1 \<or> 3 < integer_of_text (parts ! 0))"

subsection \<open>Fetch stage\<close>

definition transient :: "attempt \<Rightarrow> bool" where
  "transient a \<longleftrightarrow>
     (case outcome a of
        Network_error \<Rightarrow> True
      | Http_error status \<Rightarrow> True
      | Http_ok data \<Rightarrow> message data = ''NOTOK'')"

definition backoff :: "attempt \<Rightarrow> int" where
  "backoff a = (case outcome a of Network_error \<Rightarrow> 10000 | Http_error status \<Rightarrow> 3000 | Http_ok data \<Rightarrow> 3000)"

definition returned :: "attempt \<Rightarrow> string option" where
  "returned a = (case outcome a of Http_ok data \<Rightarrow> source_of (result data) | Network_error \<Rightarrow> None | Http_error status \<Rightarrow> None)"

definition after_attempt :: "attempt \<Rightarrow> fetch_state \<Rightarrow> fetch_state" where
  "after_attempt a s = s\<lparr>calls := calls s @ [clock s], clock := clock s + int (took_ms a)\<rparr>"

fun after_retries :: "(nat \<Rightarrow> attempt) \<Rightarrow> nat \<Rightarrow> nat \<Rightarrow> fetch_state \<Rightarrow> fetch_state" where
  "after_retries w i 0 s = s"
| "after_retries w i (Suc n) s =
     after_retries w (Suc i) n (sleep (backoff (w i)) (backoff_late_ms (w i)) (after_attempt (w i) s))"

section \<open>Examples\<close>

definition short_record :: code_row where
  "short_record = \<lparr>block_number = ''100'', address = ''0xA'', is_erc20 = ''true'',
     is_erc721 = ''false'', code = ''contract A {}''\<rparr>"

definition reply_2 :: classify_world where
  "reply_2 = \<lparr>api = Api_content ''2 | playful naming scheme'', call_ms = 700, late_ms = 0\<rparr>"



definition contract_A :: code_row where
  "contract_A = \<lparr>block_number = ''100'', address = ''0xA'', is_erc20 = ''true'',
     is_erc721 = ''false'', code = ''contract A { uint x; }''\<rparr>"

definition contract_B :: code_row where
  "contract_B = \<lparr>block_number = ''101'', address = ''0xB'', is_erc20 = ''false'',
     is_erc721 = ''false'', code = ''contract A { uint x; }''\<rparr>"

definition contract_no_key :: code_row where
  "contract_no_key = \<lparr>block_number = ''99'', address = [], is_erc20 = ''true'',
     is_erc721 = ''false'', code = ''contract A { uint x; }''\<rparr>"




definition address_A :: addr_row where
  "address_A = \<lparr>block_number = ''100'', address = ''0xA'', is_erc20 = ''true'', is_erc721 = ''false''\<rparr>"

definition no_contract :: fetch_world where
  "no_contract =
     \<lparr>attempts = (\<lambda>i. \<lparr>outcome = Http_ok \<lparr>message = ''OK'', result = Result_array [Some []]\<rparr>,
                          took_ms = 20, backoff_late_ms = 0\<rparr>),
      limiter_late_ms = 0\<rparr>"

definition world_2_5 :: classify_world where
  "world_2_5 = \<lparr>api = Api_content ''2.5 | nice'', call_ms = 700, late_ms = 0\<rparr>"

definition world_stars :: classify_world where
  "world_stars = \<lparr>api = Api_content ''**'', call_ms = 700, late_ms = 0\<rparr>"

definition api_down :: classify_world where
  "api_down = \<lparr>api = Api_throws, call_ms = 900, late_ms = 0\<rparr>"

definition network_fault :: attempt where
  "network_fault = \<lparr>outcome = Network_error, took_ms = 5, backoff_late_ms = 2\<rparr>"

definition throttled :: attempt where
  "throttled = \<lparr>outcome = Http_ok \<lparr>message = ''NOTOK'', result = Not_an_array\<rparr>,
     took_ms = 40, backoff_late_ms = 0\<rparr>"

definition verified_source :: attempt where
  "verified_source = \<lparr>outcome = Http_ok \<lparr>message = ''OK'', result = Result_array [Some ''contract X {}'']\<rparr>,
     took_ms = 20, backoff_late_ms = 0\<rparr>"

definition flaky :: fetch_world where
  "flaky = \<lparr>attempts = (\<lambda>i. if i = 0 then network_fault else if i = 1 then throttled else verified_source),
     limiter_late_ms = 0\<rparr>"

definition always_down :: fetch_world where
  "always_down = \<lparr>attempts = (\<lambda>i. network_fault), limiter_late_ms = 0\<rparr>"

section \<open>The ledger read back from the file\<close>














lemma written_file_append:
  "written_file (written_file None a) b = written_file None (a @ b)"
  by (auto simp: written_file_def csv_records_def)

section \<open>Two example runs of the classification stage\<close>

lemma reply_2_annotation:
  "getArtisticScoreAndReason (Api_content ''2 | playful naming scheme'') =
     \<lparr>score = Some 2, reason = ''playful naming scheme''\<rparr>"
  by (simp add: getArtisticScoreAndReason_def trim_def is_white_space_def parseInt_def
      is_digit_def digits_value_def digit_value_def)

lemma escape_example: "escape_newlines ''contract A { uint x; }'' = ''contract A { uint x; }''"
  by (simp add: LF_def CR_def)


lemma example_run_no_key:
  "classified (classify_main classify_config None 5000 [(contract_no_key, reply_2), (contract_B, reply_2)]) =
     [\<lparr>block_number = ''99'', address = [], is_erc20 = ''true'', is_erc721 = ''false'',
       code = ''contract A { uint x; }'', artistic_score = Some 2,
       artistic_reason = ''playful naming scheme'', duplicate_of_address = []\<rparr>,
      \<lparr>block_number = ''101'', address = ''0xB'', is_erc20 = ''false'', is_erc721 = ''false'',
       code = ''contract A { uint x; }'', artistic_score = Some 2,
       artistic_reason = ''playful naming scheme'', duplicate_of_address = []\<rparr>]"
  by code_simp

section \<open>Properties of the classification stage\<close>

lemma classify_loop_append:
  "classify_loop cfg (xs @ ys) s = classify_loop cfg ys (classify_loop cfg xs s)"
  by (induction xs arbitrary: s) auto

text \<open>
  C5. A record whose code has at most \<open>MIN_CODE_LENGTH\<close> characters and whose address is
  not in \<open>processedAddresses\<close> when its turn comes gets one row, with empty code, empty
  score and reason and \<open>TOO_SHORT\<close> in the last column. The state is otherwise the one
  before the record: no call is dispatched, no timer is awaited and the clock is where
  it was.
\<close>

theorem too_short_placeholder:
  assumes "length (code row) \<le> MIN_CODE_LENGTH"
    and "address row \<notin> processedAddresses (classify_loop cfg before s0)"
  shows "classify_loop cfg (before @ [(row, w)]) s0 =
         (classify_loop cfg before s0)
           \<lparr>classified := classified (classify_loop cfg before s0) @
              [\<lparr>block_number = block_number row, address = address row,
                is_erc20 = is_erc20 row, is_erc721 = is_erc721 row, code = [],
                artistic_score = None, artistic_reason = [],
                duplicate_of_address = ''TOO_SHORT''\<rparr>]\<rparr>"
  using assms by (simp add: classify_loop_append process_row_def too_short_row_def)

theorem too_short_placeholder_witness:
  "length (code short_record) \<le> MIN_CODE_LENGTH \<and>
   address short_record \<notin>
     processedAddresses (classify_loop classify_config [] (classify_start classify_config None 5000)) \<and>
   classify_loop classify_config ([] @ [(short_record, reply_2)])
       (classify_start classify_config None 5000) =
     \<lparr>processedAddresses = {}, clock = 5000, calls = [], waits = [],
      processedCodes = Map.empty, lastRequestTime = 0, count = 0,
      classified = [\<lparr>block_number = ''100'', address = ''0xA'', is_erc20 = ''true'',
        is_erc721 = ''false'', code = [], artistic_score = None, artistic_reason = [],
        duplicate_of_address = ''TOO_SHORT''\<rparr>]\<rparr>"
proof -
  have a: "length (code short_record) \<le> MIN_CODE_LENGTH"
    by (simp add: short_record_def MIN_CODE_LENGTH_def)
  have b: "address short_record \<notin>
     processedAddresses (classify_loop classify_config [] (classify_start classify_config None 5000))"
    by (simp add: classify_start_def load_processed_def)
  show ?thesis
    using a b too_short_placeholder [OF a b, of reply_2]
    by (simp add: classify_start_def load_processed_def short_record_def)
qed

lemma process_row_cases:
  "process_row cfg w row s = s \<or>
   (\<exists>r. process_row cfg w row s = s\<lparr>classified := classified s @ [r]\<rparr> \<and> address r = address row) \<or>
   process_row cfg w row s = enrich cfg w row s"
  by (auto simp: process_row_def too_short_row_def duplicate_row_def split: option.splits)

lemma classified_process_row:
  "classified (process_row cfg w row s) = classified s \<or>
   (\<exists>r. classified (process_row cfg w row s) = classified s @ [r] \<and> address r = address row)"
  by (auto simp: process_row_def too_short_row_def duplicate_row_def enrich_def enriched_row_def Let_def
      split: option.splits)

lemma classified_keys_loop:
  "set (map address (classified (classify_loop cfg records s))) \<subseteq>
     set (map address (classified s)) \<union> set (map (address \<circ> fst) records)"
proof (induction records arbitrary: s)
  case Nil
  then show ?case by simp
next
  case (Cons p records)
  obtain row w where p: "p = (row, w)" by (cases p)
  have "set (map address (classified (process_row cfg w row s))) \<subseteq>
        set (map address (classified s)) \<union> {address row}"
    using classified_process_row [of cfg w row s] by auto
  with Cons.IH [of "process_row cfg w row s"] show ?case
    unfolding p by auto
qed

lemma distinct_keys_loop:
  assumes "distinct (map (address \<circ> fst) records)"
    and "distinct (map address (classified s))"
    and "set (map address (classified s)) \<inter> set (map (address \<circ> fst) records) = {}"
  shows "distinct (map address (classified (classify_loop cfg records s)))"
  using assms
proof (induction records arbitrary: s)
  case Nil
  then show ?case by simp
next
  case (Cons p records)
  obtain row w where p: "p = (row, w)" by (cases p)
  let ?s = "process_row cfg w row s"
  have sub: "set (map address (classified ?s)) \<subseteq> set (map address (classified s)) \<union> {address row}"
    using classified_process_row [of cfg w row s] by auto
  have d: "distinct (map address (classified ?s))"
    using classified_process_row [of cfg w row s] Cons.prems unfolding p by auto
  have a_notin: "address row \<notin> set (map (address \<circ> fst) records)"
    using Cons.prems(1) unfolding p by simp
  have disj: "set (map address (classified s)) \<inter> set (map (address \<circ> fst) records) = {}"
    using Cons.prems(3) unfolding p by auto
  have i: "set (map address (classified ?s)) \<inter> set (map (address \<circ> fst) records) = {}"
    using sub a_notin disj by blast
  from Cons.IH [OF _ d i] Cons.prems show ?case
    unfolding p by simp
qed

lemma placeholder_keeps_processed:
  assumes "length (code row) \<le> MIN_CODE_LENGTH \<or> truthy_entry (processedCodes s) (code row) \<noteq> None"
  shows "processedAddresses (process_row cfg w row s) = processedAddresses s"
  using assms by (auto simp: process_row_def split: option.splits)

text \<open>
  C10. A record that gets a placeholder row (too short, or a duplicate of a code seen in
  this run) leaves \<open>processedAddresses\<close> as it was. The rows appended by one run have
  pairwise different addresses when the input has; and an input with the same address
  twice, with a short code, gets two rows for that address in one run.
\<close>

theorem placeholder_key_not_remembered:
  "(length (code row) \<le> MIN_CODE_LENGTH \<or> truthy_entry (processedCodes s) (code row) \<noteq> None
      \<longrightarrow> processedAddresses (process_row cfg w row s) = processedAddresses s) \<and>
   (distinct (map (address \<circ> fst) records)
      \<longrightarrow> distinct (map address (classified (classify_main cfg existing t0 records)))) \<and>
   map address (classified (classify_main classify_config None 5000
       [(short_record, reply_2), (short_record, reply_2)])) = [''0xA'', ''0xA'']"
proof (intro conjI impI)
  show "map address (classified (classify_main classify_config None 5000
       [(short_record, reply_2), (short_record, reply_2)])) = [''0xA'', ''0xA'']"
    by (simp add: classify_main_def classify_start_def load_processed_def process_row_def
        short_record_def MIN_CODE_LENGTH_def too_short_row_def)
next
  assume "distinct (map (address \<circ> fst) records)"
  then show "distinct (map address (classified (classify_main cfg existing t0 records)))"
    unfolding classify_main_def
    by (rule distinct_keys_loop) (simp_all add: classify_start_def)
qed (rule placeholder_keeps_processed)

theorem placeholder_key_not_remembered_witness:
  "length (code short_record) \<le> MIN_CODE_LENGTH \<and>
   processedAddresses (process_row classify_config reply_2 short_record (classify_start classify_config None 5000)) =
     processedAddresses (classify_start classify_config None 5000) \<and>
   distinct (map (address \<circ> fst) [(short_record, reply_2)]) \<and>
   distinct (map address (classified (classify_main classify_config None 5000 [(short_record, reply_2)])))"
proof -
  have "length (code short_record) \<le> MIN_CODE_LENGTH"
    by (simp add: short_record_def MIN_CODE_LENGTH_def)
  moreover have "distinct (map (address \<circ> fst) [(short_record, reply_2)])"
    by simp
  ultimately show ?thesis
    using placeholder_key_not_remembered [of short_record "classify_start classify_config None 5000"
        classify_config reply_2 "[(short_record, reply_2)]" None 5000]
    by blast
qed









lemma truthy_entry_process_row:
  assumes "truthy_entry (processedCodes s) c = Some a"
  shows "truthy_entry (processedCodes (process_row cfg w row s)) c = Some a"
proof (cases "process_row cfg w row s = enrich cfg w row s \<and> truthy_entry (processedCodes s) (code row) = None")
  case True
  with assms have "c \<noteq> code row" by auto
  with assms True show ?thesis
    by (simp add: enrich_def Let_def truthy_entry_def)
next
  case False
  then have "processedCodes (process_row cfg w row s) = processedCodes s"
    by (auto simp: process_row_def split: option.splits)
  with assms show ?thesis by simp
qed

lemma truthy_entry_loop:
  "truthy_entry (processedCodes s) c = Some a \<Longrightarrow>
   truthy_entry (processedCodes (classify_loop cfg records s)) c = Some a"
proof (induction records arbitrary: s)
  case Nil
  then show ?case by simp
next
  case (Cons p records)
  obtain row w where p: "p = (row, w)" by (cases p)
  from Cons.IH [OF truthy_entry_process_row [OF Cons.prems, of cfg w row]] show ?case
    unfolding p by simp
qed

text \<open>
  C6 (amended). Let \<open>r1\<close> be enriched in this run (when its turn comes it is not skipped,
  its code is longer than \<open>MIN_CODE_LENGTH\<close> and not in \<open>processedCodes\<close>), with an address
  that is not empty, and let \<open>r2\<close> come later with the same code and an address that is not
  in \<open>processedAddresses\<close> when its turn comes. Then \<open>r2\<close> gets one row with empty code whose
  last column is the address of \<open>r1\<close>, and nothing else changes. A code that only an earlier
  run has seen is not detected: whatever the output file holds, a first record that is
  neither skipped nor short is enriched.
\<close>

theorem duplicate_content_detected:
  assumes "s1 = classify_loop cfg before s0"
    and "\<not> (SKIP_PROCESSED cfg \<and> address r1 \<in> processedAddresses s1)"
    and "MIN_CODE_LENGTH < length (code r1)"
    and "truthy_entry (processedCodes s1) (code r1) = None"
    and "address r1 \<noteq> []"
    and "code r2 = code r1"
    and "s2 = classify_loop cfg between (process_row cfg w1 r1 s1)"
    and "\<not> (SKIP_PROCESSED cfg \<and> address r2 \<in> processedAddresses s2)"
  shows "classified (process_row cfg w1 r1 s1) =
           classified s1 @ [enriched_row r1 (getArtisticScoreAndReason (api w1))] \<and>
         classify_loop cfg (before @ (r1, w1) # between @ [(r2, w2)]) s0 =
           s2\<lparr>classified := classified s2 @
             [\<lparr>block_number = block_number r2, address = address r2, is_erc20 = is_erc20 r2,
               is_erc721 = is_erc721 r2, code = [], artistic_score = None, artistic_reason = [],
               duplicate_of_address = address r1\<rparr>]\<rparr> \<and>
         (\<forall>existing t0 r w.
            \<not> (SKIP_PROCESSED cfg \<and> address r \<in> load_processed cfg existing) \<longrightarrow>
            MIN_CODE_LENGTH < length (code r) \<longrightarrow>
            classified (classify_main cfg existing t0 [(r, w)]) =
              [enriched_row r (getArtisticScoreAndReason (api w))])"
proof (intro conjI allI impI)
  have step1: "process_row cfg w1 r1 s1 = enrich cfg w1 r1 s1"
    using assms(2,3,4) by (auto simp: process_row_def)
  then show "classified (process_row cfg w1 r1 s1) =
      classified s1 @ [enriched_row r1 (getArtisticScoreAndReason (api w1))]"
    by (simp add: enrich_def Let_def)
  have "truthy_entry (processedCodes (process_row cfg w1 r1 s1)) (code r1) = Some (address r1)"
    using assms(5) unfolding step1 by (simp add: enrich_def Let_def truthy_entry_def)
  then have "truthy_entry (processedCodes s2) (code r2) = Some (address r1)"
    unfolding assms(6,7) by (rule truthy_entry_loop)
  moreover have "MIN_CODE_LENGTH < length (code r2)"
    using assms(3,6) by simp
  ultimately have "process_row cfg w2 r2 s2 = s2\<lparr>classified := classified s2 @ [duplicate_row r2 (address r1)]\<rparr>"
    using assms(8) by (simp add: process_row_def)
  then show "classify_loop cfg (before @ (r1, w1) # between @ [(r2, w2)]) s0 =
           s2\<lparr>classified := classified s2 @
             [\<lparr>block_number = block_number r2, address = address r2, is_erc20 = is_erc20 r2,
               is_erc721 = is_erc721 r2, code = [], artistic_score = None, artistic_reason = [],
               duplicate_of_address = address r1\<rparr>]\<rparr>"
    by (simp add: classify_loop_append assms(1,7) duplicate_row_def)
next
  fix existing t0 and r :: code_row and w
  assume "\<not> (SKIP_PROCESSED cfg \<and> address r \<in> load_processed cfg existing)"
    and "MIN_CODE_LENGTH < length (code r)"
  then show "classified (classify_main cfg existing t0 [(r, w)]) =
              [enriched_row r (getArtisticScoreAndReason (api w))]"
    by (simp add: classify_main_def classify_start_def process_row_def truthy_entry_def enrich_def Let_def)
qed

theorem duplicate_content_detected_witness:
  "\<not> (SKIP_PROCESSED classify_config \<and>
        address contract_A \<in> processedAddresses (classify_start classify_config None 5000)) \<and>
   MIN_CODE_LENGTH < length (code contract_A) \<and>
   truthy_entry (processedCodes (classify_start classify_config None 5000)) (code contract_A) = None \<and>
   address contract_A \<noteq> [] \<and>
   code contract_B = code contract_A \<and>
   \<not> (SKIP_PROCESSED classify_config \<and>
        address contract_B \<in> processedAddresses
          (process_row classify_config reply_2 contract_A (classify_start classify_config None 5000))) \<and>
   classify_loop classify_config [(contract_A, reply_2), (contract_B, reply_2)]
       (classify_start classify_config None 5000) =
     (process_row classify_config reply_2 contract_A (classify_start classify_config None 5000))
       \<lparr>classified :=
          classified (process_row classify_config reply_2 contract_A
            (classify_start classify_config None 5000)) @
          [\<lparr>block_number = ''101'', address = ''0xB'', is_erc20 = ''false'', is_erc721 = ''false'',
            code = [], artistic_score = None, artistic_reason = [],
            duplicate_of_address = ''0xA''\<rparr>]\<rparr>"
proof -
  let ?s0 = "classify_start classify_config None 5000"
  have h2: "\<not> (SKIP_PROCESSED classify_config \<and> address contract_A \<in> processedAddresses ?s0)"
    by (simp add: classify_start_def load_processed_def)
  have h3: "MIN_CODE_LENGTH < length (code contract_A)"
    by (simp add: contract_A_def MIN_CODE_LENGTH_def)
  have h4: "truthy_entry (processedCodes ?s0) (code contract_A) = None"
    by (simp add: classify_start_def truthy_entry_def)
  have h5: "address contract_A \<noteq> []"
    by (simp add: contract_A_def)
  have h6: "code contract_B = code contract_A"
    by (simp add: contract_A_def contract_B_def)
  have h8: "\<not> (SKIP_PROCESSED classify_config \<and> address contract_B \<in>
      processedAddresses (classify_loop classify_config [] (process_row classify_config reply_2 contract_A ?s0)))"
    by code_simp
  have h1: "?s0 = classify_loop classify_config [] ?s0"
    by simp
  from duplicate_content_detected [where ?s1.0 = "?s0" and cfg = classify_config and before = "[]"
      and ?s0.0 = "?s0" and ?r1.0 = contract_A and ?w1.0 = reply_2 and ?r2.0 = contract_B
      and between = "[]" and ?w2.0 = reply_2, OF h1 h2 h3 h4 h5 h6 refl h8]
  have "classify_loop classify_config ([] @ (contract_A, reply_2) # [] @ [(contract_B, reply_2)]) ?s0 =
     (classify_loop classify_config [] (process_row classify_config reply_2 contract_A ?s0))
       \<lparr>classified :=
          classified (classify_loop classify_config [] (process_row classify_config reply_2 contract_A ?s0)) @
          [\<lparr>block_number = block_number contract_B, address = address contract_B,
            is_erc20 = is_erc20 contract_B, is_erc721 = is_erc721 contract_B,
            code = [], artistic_score = None, artistic_reason = [],
            duplicate_of_address = address contract_A\<rparr>]\<rparr>"
    by simp
  then have "classify_loop classify_config [(contract_A, reply_2), (contract_B, reply_2)] ?s0 =
     (process_row classify_config reply_2 contract_A ?s0)
       \<lparr>classified := classified (process_row classify_config reply_2 contract_A ?s0) @
          [\<lparr>block_number = ''101'', address = ''0xB'', is_erc20 = ''false'', is_erc721 = ''false'',
            code = [], artistic_score = None, artistic_reason = [],
            duplicate_of_address = ''0xA''\<rparr>]\<rparr>"
    by (simp add: contract_A_def contract_B_def)
  with h2 h3 h4 h5 h6 h8 show ?thesis by simp
qed

text \<open>
  C6 as stated fails when the first record has the empty address: its entry in
  \<open>processedCodes\<close> is falsy, and the second record with the same code is enriched again.
\<close>

theorem duplicate_content_missed_for_empty_key:
  "code contract_B = code contract_no_key \<and>
   classified (classify_main classify_config None 5000
      [(contract_no_key, reply_2), (contract_B, reply_2)]) =
     [\<lparr>block_number = ''99'', address = [], is_erc20 = ''true'', is_erc721 = ''false'',
       code = ''contract A { uint x; }'', artistic_score = Some 2,
       artistic_reason = ''playful naming scheme'', duplicate_of_address = []\<rparr>,
      \<lparr>block_number = ''101'', address = ''0xB'', is_erc20 = ''false'', is_erc721 = ''false'',
       code = ''contract A { uint x; }'', artistic_score = Some 2,
       artistic_reason = ''playful naming scheme'', duplicate_of_address = []\<rparr>]"
  by (simp add: example_run_no_key) (simp add: contract_B_def contract_no_key_def)

section \<open>The reply of the classification service\<close>

lemma takeWhile_all: "list_all P xs \<Longrightarrow> takeWhile P xs = xs"
  by (induction xs) auto

lemma digit_not_space: "is_digit c \<Longrightarrow> \<not> is_white_space c \<and> c \<noteq> CHR ''-'' \<and> c \<noteq> CHR ''+''"
  by (auto simp: is_digit_def is_white_space_def)

lemma parseInt_integer_text:
  assumes "is_integer_text s"
  shows "parseInt s = Some (integer_of_text s)"
proof (cases s)
  case Nil
  with assms show ?thesis by (simp add: is_integer_text_def)
next
  case (Cons c cs)
  show ?thesis
  proof (cases "c = CHR ''-'' \<or> c = CHR ''+''")
    case True
    then have ws: "\<not> is_white_space c" by (auto simp: is_white_space_def)
    from True assms Cons have cs: "cs \<noteq> []" "list_all is_digit cs"
      by (auto simp: is_integer_text_def)
    then have z: "takeWhile is_digit cs = cs" by (simp add: takeWhile_all)
    from True ws cs(1) Cons show ?thesis
      by (auto simp: parseInt_def integer_of_text_def Let_def z simp del: takeWhile_eq_all_conv)
  next
    case False
    with assms Cons have all: "list_all is_digit (c # cs)"
      by (simp add: is_integer_text_def)
    then have "is_digit c" by simp
    then have ws: "\<not> is_white_space c" using digit_not_space by blast
    from all have z: "takeWhile is_digit (c # cs) = c # cs" by (rule takeWhile_all)
    from False ws Cons show ?thesis
      by (simp add: parseInt_def integer_of_text_def Let_def z
          del: takeWhile_eq_all_conv takeWhile.simps)
  qed
qed

text \<open>
  C4 (amended). When the reply has not exactly two fields, or \<open>parseInt\<close> finds no integer
  at the start of the score field, or the integer it finds there is outside 1 to 3, the
  adapter returns the null annotation after its single call, and the driver appends the
  row with the code of the record (line breaks escaped), empty score and empty reason.
  For a score field that is an integer this is the parse failure of the specification.
\<close>

theorem rejected_reply_recorded:
  assumes "api w = Api_content raw"
    and "parts = map trim (split (CHR ''|'') (trim raw))"
    and "length parts \<noteq> 2 \<or> parseInt (parts ! 0) = None \<or>
         (\<exists>n. parseInt (parts ! 0) = Some n \<and> (n < 1 \<or> 3 < n))"
    and "\<not> (SKIP_PROCESSED cfg \<and> address row \<in> processedAddresses s)"
    and "MIN_CODE_LENGTH < length (code row)"
    and "truthy_entry (processedCodes s) (code row) = None"
  shows "getArtisticScoreAndReason (api w) = \<lparr>score = None, reason = []\<rparr> \<and>
         classified (process_row cfg w row s) =
           classified s @
           [\<lparr>block_number = block_number row, address = address row, is_erc20 = is_erc20 row,
             is_erc721 = is_erc721 row, code = escape_newlines (code row),
             artistic_score = None, artistic_reason = [], duplicate_of_address = []\<rparr>] \<and>
         length (calls (process_row cfg w row s)) = length (calls s) + 1 \<and>
         (length parts = 2 \<longrightarrow> is_integer_text (parts ! 0) \<longrightarrow> spec_parse_failure raw)"
proof -
  note failure = assms(3) [unfolded assms(2)]
  have a: "getArtisticScoreAndReason (api w) = \<lparr>score = None, reason = []\<rparr>"
    using failure unfolding assms(1) getArtisticScoreAndReason_def
    by (auto simp: null_annotation_def Let_def)
  have p: "process_row cfg w row s = enrich cfg w row s"
    using assms(4,5,6) by (auto simp: process_row_def)
  have "spec_parse_failure raw" if "length parts = 2" "is_integer_text (parts ! 0)"
    using that [unfolded assms(2)] failure
      parseInt_integer_text [of "map trim (split (CHR ''|'') (trim raw)) ! 0"]
    unfolding spec_parse_failure_def by (auto simp: Let_def)
  then show ?thesis
    unfolding p by (simp add: enrich_def Let_def a enriched_row_def)
qed

theorem rejected_reply_recorded_witness:
  "api world_stars = Api_content ''**'' \<and>
   parseInt (map trim (split (CHR ''|'') (trim ''**'')) ! 0) = None \<and>
   \<not> (SKIP_PROCESSED classify_config \<and>
        address contract_A \<in> processedAddresses (classify_start classify_config None 5000)) \<and>
   MIN_CODE_LENGTH < length (code contract_A) \<and>
   truthy_entry (processedCodes (classify_start classify_config None 5000)) (code contract_A) = None \<and>
   getArtisticScoreAndReason (api world_stars) = \<lparr>score = None, reason = []\<rparr> \<and>
   classified (process_row classify_config world_stars contract_A (classify_start classify_config None 5000)) =
     [\<lparr>block_number = ''100'', address = ''0xA'', is_erc20 = ''true'', is_erc721 = ''false'',
       code = ''contract A { uint x; }'', artistic_score = None, artistic_reason = [],
       duplicate_of_address = []\<rparr>] \<and>
   length (calls (process_row classify_config world_stars contract_A
      (classify_start classify_config None 5000))) = 1"
proof -
  let ?s0 = "classify_start classify_config None 5000"
  have h1: "api world_stars = Api_content ''**''"
    by (simp add: world_stars_def)
  have h3: "parseInt (map trim (split (CHR ''|'') (trim ''**'')) ! 0) = None"
    by code_simp
  have h4: "\<not> (SKIP_PROCESSED classify_config \<and> address contract_A \<in> processedAddresses ?s0)"
    by (simp add: classify_start_def load_processed_def)
  have h5: "MIN_CODE_LENGTH < length (code contract_A)"
    by (simp add: contract_A_def MIN_CODE_LENGTH_def)
  have h6: "truthy_entry (processedCodes ?s0) (code contract_A) = None"
    by (simp add: classify_start_def truthy_entry_def)
  from h3 have h3': "length (map trim (split (CHR ''|'') (trim ''**''))) \<noteq> 2 \<or>
      parseInt (map trim (split (CHR ''|'') (trim ''**'')) ! 0) = None \<or>
      (\<exists>n. parseInt (map trim (split (CHR ''|'') (trim ''**'')) ! 0) = Some n \<and> (n < 1 \<or> 3 < n))"
    by blast
  from rejected_reply_recorded [OF h1 refl h3' h4 h5 h6]
  have "getArtisticScoreAndReason (api world_stars) = \<lparr>score = None, reason = []\<rparr> \<and>
     classified (process_row classify_config world_stars contract_A ?s0) =
       [\<lparr>block_number = ''100'', address = ''0xA'', is_erc20 = ''true'', is_erc721 = ''false'',
         code = ''contract A { uint x; }'', artistic_score = None, artistic_reason = [],
         duplicate_of_address = []\<rparr>] \<and>
     length (calls (process_row classify_config world_stars contract_A ?s0)) = 1"
    by (simp add: contract_A_def LF_def CR_def classify_start_def)
  with h1 h3 h4 h5 h6 show ?thesis by blast
qed

text \<open>
  C4 as stated fails for a score that is not an integer but starts with one: \<open>parseInt\<close>
  reads \<open>2.5\<close> as 2, and the reply is accepted.
\<close>

theorem non_integer_score_accepted:
  "spec_parse_failure ''2.5 | nice'' \<and>
   getArtisticScoreAndReason (Api_content ''2.5 | nice'') = \<lparr>score = Some 2, reason = ''nice''\<rparr> \<and>
   classified (classify_main classify_config None 5000 [(contract_A, world_2_5)]) =
     [\<lparr>block_number = ''100'', address = ''0xA'', is_erc20 = ''true'', is_erc721 = ''false'',
       code = ''contract A { uint x; }'', artistic_score = Some 2, artistic_reason = ''nice'',
       duplicate_of_address = []\<rparr>]"
  by code_simp

section \<open>Properties of the fetch stage\<close>

lemma fetch_retry:
  "transient (w i) \<Longrightarrow>
   fetchContractSource w i s =
     fetchContractSource w (Suc i) (sleep (backoff (w i)) (backoff_late_ms (w i)) (after_attempt (w i) s))"
  by (subst fetchContractSource.simps)
     (auto simp: transient_def backoff_def after_attempt_def split: http_outcome.splits)

lemma fetch_return:
  "\<not> transient (w i) \<Longrightarrow>
   fetchContractSource w i s = Some (returned (w i), after_attempt (w i) s)"
  by (subst fetchContractSource.simps)
     (auto simp: transient_def returned_def after_attempt_def split: http_outcome.splits)

lemma fetch_returns_after:
  assumes "\<forall>k<n. transient (w (i + k))" and "\<not> transient (w (i + n))"
  shows "fetchContractSource w i s =
         Some (returned (w (i + n)), after_attempt (w (i + n)) (after_retries w i n s))"
  using assms
proof (induction n arbitrary: i s)
  case 0
  then show ?case by (simp add: fetch_return)
next
  case (Suc n)
  from Suc.prems(1) have "transient (w (i + 0))" by blast
  then have t: "transient (w i)" by simp
  have "\<forall>k<n. transient (w (Suc i + k))"
  proof (intro allI impI)
    fix k assume "k < n"
    then have "Suc k < Suc n" by simp
    with Suc.prems(1) have "transient (w (i + Suc k))" by blast
    then show "transient (w (Suc i + k))" by simp
  qed
  moreover have "\<not> transient (w (Suc i + n))"
    using Suc.prems(2) by simp
  ultimately have "fetchContractSource w (Suc i)
        (sleep (backoff (w i)) (backoff_late_ms (w i)) (after_attempt (w i) s)) =
      Some (returned (w (Suc i + n)),
        after_attempt (w (Suc i + n))
          (after_retries w (Suc i) n
            (sleep (backoff (w i)) (backoff_late_ms (w i)) (after_attempt (w i) s))))"
    by (rule Suc.IH)
  then show ?case
    unfolding fetch_retry [of w i, OF t] by simp
qed

lemma fetch_Some_definitive:
  assumes "fetchContractSource w i s = Some y"
  shows "\<exists>n. (\<forall>k<n. transient (w (i + k))) \<and> \<not> transient (w (i + n))"
  using assms
proof (induction rule: fetchContractSource.raw_induct [rotated 1, consumes 1])
  case (1 f w i s y)
  show ?case
  proof (cases "transient (w i)")
    case False
    then show ?thesis by (intro exI [of _ 0]) simp
  next
    case True
    have "\<exists>s'. f w (Suc i) s' = Some y"
    proof (cases "outcome (w i)")
      case Network_error
      with 1(2) have "f w (Suc i) (sleep 10000 (backoff_late_ms (w i))
          (s\<lparr>calls := calls s @ [clock s], clock := clock s + int (took_ms (w i))\<rparr>)) = Some y"
        by simp
      then show ?thesis by (rule exI)
    next
      case (Http_error status)
      with 1(2) have "f w (Suc i) (sleep 3000 (backoff_late_ms (w i))
          (s\<lparr>calls := calls s @ [clock s], clock := clock s + int (took_ms (w i))\<rparr>)) = Some y"
        by simp
      then show ?thesis by (rule exI)
    next
      case (Http_ok data)
      with True have "message data = ''NOTOK''" by (simp add: transient_def)
      with Http_ok 1(2) have "f w (Suc i) (sleep 3000 (backoff_late_ms (w i))
          (s\<lparr>calls := calls s @ [clock s], clock := clock s + int (took_ms (w i))\<rparr>)) = Some y"
        by simp
      then show ?thesis by (rule exI)
    qed
    then obtain s' where fs: "f w (Suc i) s' = Some y" by (elim exE)
    have "\<exists>n. (\<forall>k<n. transient (w (Suc i + k))) \<and> \<not> transient (w (Suc i + n))"
      using fs by (rule 1(1))
    then obtain n where n1: "\<forall>k<n. transient (w (Suc i + k))"
      and n2: "\<not> transient (w (Suc i + n))" by (elim exE conjE)
    have "transient (w (i + k))" if "k < Suc n" for k
    proof (cases k)
      case 0
      with True show ?thesis by simp
    next
      case (Suc j)
      with that have "j < n" by simp
      with n1 have "transient (w (Suc i + j))" by blast
      with Suc show ?thesis by simp
    qed
    moreover from n2 have "\<not> transient (w (i + Suc n))" by simp
    ultimately show ?thesis by blast
  qed
qed

lemma fetch_never_returns:
  assumes "\<forall>k. transient (w (i + k))"
  shows "fetchContractSource w i s = None"
proof (cases "fetchContractSource w i s")
  case None
  then show ?thesis .
next
  case (Some y)
  from fetch_Some_definitive [OF this] assms show ?thesis by blast
qed

lemma after_retries_fields:
  "processedAddresses (after_retries w i n s) = processedAddresses s \<and>
   fetched (after_retries w i n s) = fetched s \<and>
   callCount (after_retries w i n s) = callCount s \<and>
   startTime (after_retries w i n s) = startTime s"
  by (induction n arbitrary: i s) (simp_all add: sleep_def after_attempt_def)

lemma fetch_fields:
  assumes "fetchContractSource w i s = Some (r, s')"
  shows "processedAddresses s' = processedAddresses s \<and> fetched s' = fetched s \<and>
         callCount s' = callCount s \<and> startTime s' = startTime s"
proof -
  from fetch_Some_definitive [OF assms] obtain n where
    "\<forall>k<n. transient (w (i + k))" "\<not> transient (w (i + n))" by blast
  from fetch_returns_after [OF this, of s] assms
  have "s' = after_attempt (w (i + n)) (after_retries w i n s)" by simp
  then show ?thesis
    by (simp add: after_attempt_def after_retries_fields)
qed

lemma limiter_fields:
  "processedAddresses (limiter cfg w s) = processedAddresses s \<and>
   fetched (limiter cfg w s) = fetched s"
  by (simp add: limiter_def Let_def sleep_def)



lemma source_of_nonempty: "source_of res = Some src \<Longrightarrow> src \<noteq> []"
  by (auto simp: source_of_def Let_def split: json_result.splits list.splits option.splits if_splits)

lemma returned_nonempty: "returned a = Some src \<Longrightarrow> src \<noteq> []"
  by (auto simp: returned_def source_of_nonempty split: http_outcome.splits)

lemma after_retries_logs:
  "waits (after_retries w i n s) = waits s @ map (\<lambda>k. backoff (w k)) [i..<i + n] \<and>
   length (calls (after_retries w i n s)) = length (calls s) + n"
proof (induction n arbitrary: i s)
  case 0
  then show ?case by simp
next
  case (Suc n)
  have "[i..<i + Suc n] = i # [Suc i..<Suc i + n]"
    by (simp add: upt_conv_Cons)
  with Suc [of "Suc i"] show ?case
    by (simp add: sleep_def after_attempt_def)
qed

lemma process_address_returns:
  assumes "\<not> (SKIP_PROCESSED cfg \<and> address row \<in> processedAddresses s)"
    and "\<forall>k<n. transient (attempts w k)" and "\<not> transient (attempts w n)"
  shows "\<exists>s'. process_address cfg w row s = Some s' \<and>
           fetched s' = fetched s @
             (case returned (attempts w n) of Some src \<Rightarrow> [fetched_row row src] | None \<Rightarrow> []) \<and>
           processedAddresses s' =
             (case returned (attempts w n) of
                Some src \<Rightarrow> insert (address row) (processedAddresses s)
              | None \<Rightarrow> processedAddresses s)"
proof -
  let ?s1 = "after_attempt (attempts w n) (after_retries (attempts w) 0 n (limiter cfg w s))"
  have f: "fetchContractSource (attempts w) 0 (limiter cfg w s) = Some (returned (attempts w n), ?s1)"
    using fetch_returns_after [of n "attempts w" 0 "limiter cfg w s"] assms(2,3) by simp
  have s1: "processedAddresses ?s1 = processedAddresses s" "fetched ?s1 = fetched s"
    using fetch_fields [OF f] limiter_fields [of cfg w s] by simp_all
  have eq: "process_address cfg w row s =
      (case returned (attempts w n) of
         Some src \<Rightarrow>
           if src \<noteq> []
           then Some (?s1\<lparr>fetched := fetched ?s1 @ [fetched_row row src],
                  processedAddresses := insert (address row) (processedAddresses ?s1)\<rparr>)
           else Some ?s1
       | None \<Rightarrow> Some ?s1)"
    unfolding process_address_def using assms(1) by (simp only: if_False f option.case prod.case)
  show ?thesis
  proof (cases "returned (attempts w n)")
    case None
    with eq s1 show ?thesis by simp
  next
    case (Some src)
    then have "src \<noteq> []" by (rule returned_nonempty)
    with Some eq s1 show ?thesis by simp
  qed
qed

lemma flaky_attempts:
  "transient (attempts flaky 0)" "transient (attempts flaky (Suc 0))" "\<not> transient (attempts flaky 2)"
  "returned (attempts flaky 2) = Some ''contract X {}''"
  "backoff (attempts flaky 0) = 10000" "backoff (attempts flaky (Suc 0)) = 3000"
  by (simp_all add: flaky_def network_fault_def throttled_def verified_source_def transient_def
      returned_def backoff_def source_of_def trim_def is_white_space_def)

text \<open>
  C1 (amended). A record that is not skipped as already processed gets exactly one row
  in the classification stage. In the fetch stage, when the look-up returns after some
  retries, the record gets one row and its address joins \<open>processedAddresses\<close> if source
  code was returned; it gets no row, and its address is not remembered, if the look-up
  found no contract.
\<close>

theorem one_row_per_processed_record:
  assumes "\<not> (SKIP_PROCESSED cfg \<and> address row \<in> processedAddresses s)"
  shows "(\<exists>r. classified (process_row cfg w row s) = classified s @ [r] \<and> address r = address row) \<and>
         ((\<forall>k<n. transient (attempts fw k)) \<longrightarrow> \<not> transient (attempts fw n) \<longrightarrow>
          \<not> (SKIP_PROCESSED cfg \<and> address frow \<in> processedAddresses fs) \<longrightarrow>
            (\<exists>fs'. process_address cfg fw frow fs = Some fs' \<and>
               fetched fs' = fetched fs @
                 (case returned (attempts fw n) of
                    Some src \<Rightarrow> [fetched_row frow src]
                  | None \<Rightarrow> []) \<and>
               processedAddresses fs' =
                 (case returned (attempts fw n) of
                    Some src \<Rightarrow> insert (address frow) (processedAddresses fs)
                  | None \<Rightarrow> processedAddresses fs)))"
proof -
  have "\<exists>r. classified (process_row cfg w row s) = classified s @ [r] \<and> address r = address row"
    using assms
    by (cases "length (code row) \<le> MIN_CODE_LENGTH"; cases "truthy_entry (processedCodes s) (code row)")
       (auto simp: process_row_def too_short_row_def duplicate_row_def enrich_def enriched_row_def Let_def)
  then show ?thesis
    using process_address_returns [of cfg frow fs n fw] by blast
qed

theorem one_row_per_processed_record_witness:
  "\<not> (SKIP_PROCESSED fetch_config \<and>
        address contract_A \<in> processedAddresses (classify_start classify_config None 5000)) \<and>
   (\<exists>r. classified (process_row fetch_config reply_2 contract_A (classify_start classify_config None 5000)) =
          classified (classify_start classify_config None 5000) @ [r] \<and>
        address r = address contract_A) \<and>
   transient (attempts flaky 0) \<and> transient (attempts flaky 1) \<and> \<not> transient (attempts flaky 2) \<and>
   \<not> (SKIP_PROCESSED fetch_config \<and>
        address address_A \<in> processedAddresses (fetch_start fetch_config None 0)) \<and>
   (\<exists>fs'. process_address fetch_config flaky address_A (fetch_start fetch_config None 0) = Some fs' \<and>
      fetched fs' = fetched (fetch_start fetch_config None 0) @ [fetched_row address_A ''contract X {}''] \<and>
      processedAddresses fs' =
        insert (address address_A) (processedAddresses (fetch_start fetch_config None 0)))"
proof -
  have h1: "\<not> (SKIP_PROCESSED fetch_config \<and>
        address contract_A \<in> processedAddresses (classify_start classify_config None 5000))"
    by (simp add: classify_start_def load_processed_def)
  have h2: "\<forall>k<2. transient (attempts flaky k)"
    using flaky_attempts(1,2) by (simp add: numeral_2_eq_2 less_Suc_eq)
  have h3: "\<not> (SKIP_PROCESSED fetch_config \<and>
        address address_A \<in> processedAddresses (fetch_start fetch_config None 0))"
    by (simp add: fetch_start_def getProcessedAddresses_def)
  from one_row_per_processed_record [OF h1, of reply_2 2 flaky address_A "fetch_start fetch_config None 0"]
    h1 h2 h3 flaky_attempts
  show ?thesis by simp
qed

text \<open>
  C1 as stated fails in the fetch stage: a record whose look-up finds no contract is
  processed (one call is made) and no row is appended.
\<close>

theorem no_row_when_no_contract:
  "address address_A \<notin> processedAddresses (fetch_start fetch_config None 0) \<and>
   map_option fetched (fetch_main fetch_config None 0 [(address_A, no_contract)]) = Some [] \<and>
   map_option calls (fetch_main fetch_config None 0 [(address_A, no_contract)]) = Some [0]"
  by code_simp

text \<open>
  C3 (amended). In \<open>fetchContractSource\<close> every network fault, every response that is not
  \<open>ok\<close> and every \<open>NOTOK\<close> reply is followed by a sleep of 10 seconds (network fault) or 3
  seconds and another attempt, without bound: the function returns at the first attempt
  that is none of these, and it never returns, to the driver neither, when there is no
  such attempt. \<open>getArtisticScoreAndReason\<close> has no retry: when the call throws it returns
  the null annotation.
\<close>

theorem transient_failures:
  "((\<forall>k<n. transient (w k)) \<longrightarrow> \<not> transient (w n) \<longrightarrow>
      (\<exists>s'. fetchContractSource w 0 s = Some (returned (w n), s') \<and>
         waits s' = waits s @ map (\<lambda>k. backoff (w k)) [0..<n] \<and>
         length (calls s') = length (calls s) + n + 1)) \<and>
   ((\<forall>k. transient (w k)) \<longrightarrow>
      fetchContractSource w 0 s = None \<and>
      (\<not> (SKIP_PROCESSED cfg \<and> address row \<in> processedAddresses s0) \<longrightarrow> attempts fw = w \<longrightarrow>
         process_address cfg fw row s0 = None)) \<and>
   (transient a \<longrightarrow> backoff a = (if outcome a = Network_error then 10000 else 3000)) \<and>
   getArtisticScoreAndReason Api_throws = \<lparr>score = None, reason = []\<rparr>"
proof (intro conjI impI)
  assume t: "\<forall>k<n. transient (w k)" and d: "\<not> transient (w n)"
  let ?s' = "after_attempt (w n) (after_retries w 0 n s)"
  have "fetchContractSource w 0 s = Some (returned (w n), ?s')"
    using fetch_returns_after [of n w 0 s] t d by simp
  moreover have "waits ?s' = waits s @ map (\<lambda>k. backoff (w k)) [0..<n]"
    "length (calls ?s') = length (calls s) + n + 1"
    using after_retries_logs [of w 0 n s] by (simp_all add: after_attempt_def)
  ultimately show "\<exists>s'. fetchContractSource w 0 s = Some (returned (w n), s') \<and>
         waits s' = waits s @ map (\<lambda>k. backoff (w k)) [0..<n] \<and>
         length (calls s') = length (calls s) + n + 1"
    by blast
next
  assume "\<forall>k. transient (w k)"
  then show "fetchContractSource w 0 s = None"
    by (intro fetch_never_returns) simp
next
  assume t: "\<forall>k. transient (w k)"
    and n: "\<not> (SKIP_PROCESSED cfg \<and> address row \<in> processedAddresses s0)"
    and w: "attempts fw = w"
  have "fetchContractSource w 0 (limiter cfg fw s0) = None"
    using t by (intro fetch_never_returns) simp
  with n w show "process_address cfg fw row s0 = None"
    by (auto simp: process_address_def)
next
  assume "transient a"
  then show "backoff a = (if outcome a = Network_error then 10000 else 3000)"
    by (auto simp: backoff_def split: http_outcome.splits)
next
  show "getArtisticScoreAndReason Api_throws = \<lparr>score = None, reason = []\<rparr>"
    by (simp add: getArtisticScoreAndReason_def null_annotation_def)
qed

theorem transient_failures_witness:
  "transient (attempts flaky 0) \<and> transient (attempts flaky 1) \<and> \<not> transient (attempts flaky 2) \<and>
   (\<exists>s'. fetchContractSource (attempts flaky) 0 (fetch_start fetch_config None 0) =
            Some (Some ''contract X {}'', s') \<and>
          waits s' = [10000, 3000] \<and> length (calls s') = 3) \<and>
   transient (attempts always_down 7) \<and>
   fetchContractSource (attempts always_down) 0 (fetch_start fetch_config None 0) = None \<and>
   process_address fetch_config always_down address_A (fetch_start fetch_config None 0) = None \<and>
   transient network_fault \<and> backoff network_fault = 10000"
proof -
  let ?s0 = "fetch_start fetch_config None 0"
  have h2: "\<forall>k<2. transient (attempts flaky k)"
    using flaky_attempts(1,2) by (simp add: numeral_2_eq_2 less_Suc_eq)
  have up: "[0..<2] = [0, Suc 0]"
    by (simp add: numeral_2_eq_2)
  have s0: "waits ?s0 = []" "calls ?s0 = []"
    by (simp_all add: fetch_start_def)
  from transient_failures [of 2 "attempts flaky" ?s0 fetch_config address_A ?s0 flaky network_fault,
      THEN conjunct1, THEN mp, THEN mp, OF h2 flaky_attempts(3)]
  have a: "\<exists>s'. fetchContractSource (attempts flaky) 0 ?s0 = Some (Some ''contract X {}'', s') \<and>
          waits s' = [10000, 3000] \<and> length (calls s') = 3"
    by (simp add: up s0 flaky_attempts numeral_3_eq_3)
  have down: "\<forall>k. transient (attempts always_down k)"
    by (simp add: always_down_def network_fault_def transient_def)
  have h3: "\<not> (SKIP_PROCESSED fetch_config \<and> address address_A \<in> processedAddresses ?s0)"
    by (simp add: fetch_start_def getProcessedAddresses_def)
  note always = transient_failures [of 0 "attempts always_down" ?s0 fetch_config address_A ?s0
      always_down network_fault, THEN conjunct2]
  from always [THEN conjunct1, THEN mp, OF down] always [THEN conjunct2, THEN conjunct1] h3
  have b: "fetchContractSource (attempts always_down) 0 ?s0 = None"
    "process_address fetch_config always_down address_A ?s0 = None"
    "transient network_fault \<longrightarrow> backoff network_fault = 10000"
    by (simp_all add: network_fault_def)
  have c: "transient network_fault"
    by (simp add: network_fault_def transient_def)
  from a b c down flaky_attempts show ?thesis by simp
qed

text \<open>
  C3 as stated fails in the classification stage: a call that throws is made once and the
  record gets a row with the null annotation.
\<close>

theorem api_failure_recorded_as_row:
  "classified (classify_main classify_config None 5000 [(contract_A, api_down)]) =
     [\<lparr>block_number = ''100'', address = ''0xA'', is_erc20 = ''true'', is_erc721 = ''false'',
       code = ''contract A { uint x; }'', artistic_score = None, artistic_reason = [],
       duplicate_of_address = []\<rparr>] \<and>
   calls (classify_main classify_config None 5000 [(contract_A, api_down)]) = [5000] \<and>
   waits (classify_main classify_config None 5000 [(contract_A, api_down)]) = []"
  by code_simp

section \<open>Running again over the same output file\<close>





end
